theory Spec2Isabelle
  imports Main
begin

section \<open>Strings\<close>

text \<open>
  JavaScript strings are modelled as \<^typ>\<open>string\<close>. Every string the two modules
  build or compare is ASCII, so one \<^typ>\<open>char\<close> stands for one UTF-16 code unit.
\<close>

definition is_upper :: "char \<Rightarrow> bool" where
  "is_upper c = (let n = (of_char c :: nat) in 65 \<le> n \<and> n \<le> 90)"

definition is_lower :: "char \<Rightarrow> bool" where
  "is_lower c = (let n = (of_char c :: nat) in 97 \<le> n \<and> n \<le> 122)"

definition is_digit :: "char \<Rightarrow> bool" where
  "is_digit c = (let n = (of_char c :: nat) in 48 \<le> n \<and> n \<le> 57)"

definition toLowerCase_char :: "char \<Rightarrow> char" where
  "toLowerCase_char c = (if is_upper c then char_of (of_char c + (32 :: nat)) else c)"

definition toLowerCase :: "string \<Rightarrow> string" where
  "toLowerCase s = map toLowerCase_char s"

subsection \<open>lodash: \<open>_.snakeCase\<close>\<close>

definition is_word_char :: "char \<Rightarrow> bool" where
  "is_word_char c = (is_upper c \<or> is_lower c \<or> is_digit c)"

text \<open>
  The words of a string: its maximal runs of letters and digits, in order. \<open>cur\<close> holds
  the word being read, last character first.
\<close>

fun words_from :: "string \<Rightarrow> string \<Rightarrow> string list" where
  "words_from cur [] = (if cur = [] then [] else [rev cur])"
| "words_from cur (c # cs) =
     (if is_word_char c then words_from (c # cur) cs
      else if cur = [] then words_from [] cs
      else rev cur # words_from [] cs)"

definition words :: "string \<Rightarrow> string list" where
  "words s = words_from [] s"

text \<open>
  The step of the reduction that builds the result: \<open>_\<close> goes before every word but
  the first.
\<close>

definition snakeCase_step :: "string \<Rightarrow> nat \<times> string \<Rightarrow> string" where
  "snakeCase_step result iw =
     result @ (if fst iw = 0 then [] else ''_'') @ toLowerCase (snd iw)"

text \<open>
  Modelled from the spec: \<open>_.snakeCase\<close> belongs to the lodash dependency, which is not
  part of the sources. The spec calls it the lowercase-underscore-joined transform: the
  words of the string, each in lower case, joined by \<open>_\<close>. As in the library, the result
  is built by a left-to-right reduction over the words. (The library also breaks words at
  case changes and between letters and digits; the phrase the server passes has neither.)
\<close>

definition snakeCase :: "string \<Rightarrow> string" where
  "snakeCase s = foldl snakeCase_step [] (enumerate 0 (words s))"

section \<open>JSON\<close>

text \<open>
  The values that \<open>JSON.stringify\<close> writes and \<open>JSON.parse\<close> reads. A number keeps
  its literal text, so no floating point value is needed. The members of an object are
  kept in insertion order, with one entry for each key.
\<close>

datatype json =
    JNull
  | JBool bool
  | JNum string
  | JStr string
  | JArr "json list"
  | JObj "(string \<times> json) list"

subsection \<open>\<open>JSON.stringify\<close>\<close>

definition hex_digit :: "nat \<Rightarrow> char" where
  "hex_digit n = (if n < 10 then char_of (48 + n) else char_of (87 + n))"

definition escape_char :: "char \<Rightarrow> string" where
  "escape_char c =
     (let n = (of_char c :: nat) in
      if c = CHR 0x22 then [CHR 0x5C, CHR 0x22]
      else if c = CHR 0x5C then [CHR 0x5C, CHR 0x5C]
      else if c = CHR 0x08 then [CHR 0x5C, CHR ''b'']
      else if c = CHR 0x0C then [CHR 0x5C, CHR ''f'']
      else if c = CHR 0x0A then [CHR 0x5C, CHR ''n'']
      else if c = CHR 0x0D then [CHR 0x5C, CHR ''r'']
      else if c = CHR 0x09 then [CHR 0x5C, CHR ''t'']
      else if n < 32 then [CHR 0x5C, CHR ''u'', CHR ''0'', CHR ''0'', hex_digit (n div 16), hex_digit (n mod 16)]
      else [c])"

definition quote :: "string \<Rightarrow> string" where
  "quote s = CHR 0x22 # concat (map escape_char s) @ [CHR 0x22]"

fun join :: "string \<Rightarrow> string list \<Rightarrow> string" where
  "join sep [] = []"
| "join sep [x] = x"
| "join sep (x # y # ys) = x @ sep @ join sep (y # ys)"

fun JSON_stringify :: "json \<Rightarrow> string" where
  "JSON_stringify JNull = ''null''"
| "JSON_stringify (JBool b) = (if b then ''true'' else ''false'')"
| "JSON_stringify (JNum n) = n"
| "JSON_stringify (JStr s) = quote s"
| "JSON_stringify (JArr xs) = ''['' @ join '','' (map JSON_stringify xs) @ '']''"
| "JSON_stringify (JObj ms) =
     ''{'' @ join '','' (map (\<lambda>(k, v). quote k @ '':'' @ JSON_stringify v) ms) @ ''}''"

subsection \<open>\<open>JSON.parse\<close>: tokens\<close>

datatype token =
    TLBrace | TRBrace | TLBrack | TRBrack | TColon | TComma
  | TString string | TNumber string | TTrue | TFalse | TNull

text \<open>The grammar of a number: \<open>-? (0 | [1-9][0-9]*) (. [0-9]+)? ([eE] [+-]? [0-9]+)?\<close>.\<close>

definition skip_minus :: "string \<Rightarrow> string" where
  "skip_minus s = (case s of [] \<Rightarrow> [] | c # r \<Rightarrow> if c = CHR ''-'' then r else s)"

definition skip_sign :: "string \<Rightarrow> string" where
  "skip_sign s =
     (case s of [] \<Rightarrow> [] | c # r \<Rightarrow> if c = CHR ''+'' \<or> c = CHR ''-'' then r else s)"

definition skip_digits1 :: "string \<Rightarrow> string option" where
  "skip_digits1 s = (if takeWhile is_digit s = [] then None else Some (dropWhile is_digit s))"

definition skip_int :: "string \<Rightarrow> string option" where
  "skip_int s =
     (case s of
        [] \<Rightarrow> None
      | c # r \<Rightarrow>
          if c = CHR ''0'' then Some r
          else if is_digit c then Some (dropWhile is_digit r)
          else None)"

definition skip_frac :: "string \<Rightarrow> string option" where
  "skip_frac s =
     (case s of [] \<Rightarrow> Some [] | c # r \<Rightarrow> if c = CHR ''.'' then skip_digits1 r else Some s)"

definition skip_exp :: "string \<Rightarrow> string option" where
  "skip_exp s =
     (case s of
        [] \<Rightarrow> Some []
      | c # r \<Rightarrow> if c = CHR ''e'' \<or> c = CHR ''E'' then skip_digits1 (skip_sign r) else Some s)"

definition is_number :: "string \<Rightarrow> bool" where
  "is_number s =
     (Option.bind (Option.bind (skip_int (skip_minus s)) skip_frac) skip_exp = Some [])"

definition word_token :: "string \<Rightarrow> token option" where
  "word_token w =
     (if w = ''true'' then Some TTrue
      else if w = ''false'' then Some TFalse
      else if w = ''null'' then Some TNull
      else if is_number w then Some (TNumber w)
      else None)"

definition is_space :: "char \<Rightarrow> bool" where
  "is_space c = (c = CHR '' '' \<or> c = CHR 0x09 \<or> c = CHR 0x0A \<or> c = CHR 0x0D)"

definition is_bare_char :: "char \<Rightarrow> bool" where
  "is_bare_char c =
     (is_lower c \<or> is_upper c \<or> is_digit c \<or> c = CHR ''-'' \<or> c = CHR ''+'' \<or> c = CHR ''.'')"

definition hex_value :: "char \<Rightarrow> nat option" where
  "hex_value c =
     (let n = (of_char c :: nat) in
      if 48 \<le> n \<and> n \<le> 57 then Some (n - 48)
      else if 97 \<le> n \<and> n \<le> 102 then Some (n - 87)
      else if 65 \<le> n \<and> n \<le> 70 then Some (n - 55)
      else None)"

definition unescape :: "char \<Rightarrow> char option" where
  "unescape c =
     (if c = CHR 0x22 then Some (CHR 0x22)
      else if c = CHR 0x5C then Some (CHR 0x5C)
      else if c = CHR ''/'' then Some (CHR ''/'')
      else if c = CHR ''b'' then Some (CHR 0x08)
      else if c = CHR ''f'' then Some (CHR 0x0C)
      else if c = CHR ''n'' then Some (CHR 0x0A)
      else if c = CHR ''r'' then Some (CHR 0x0D)
      else if c = CHR ''t'' then Some (CHR 0x09)
      else None)"

text \<open>
  The scanner reads one character at a time. Its mode says what it is inside of: nothing,
  a string (the characters so far, last first), an escape, the hexadecimal digits of a
  \<open>\u\<close> escape, or a bare word (a literal or a number, last character first).
\<close>

datatype lmode =
    LIdle
  | LStr string
  | LEsc string
  | LUni string "nat list"
  | LWord string

definition idle_step :: "token list \<Rightarrow> char \<Rightarrow> (lmode \<times> token list) option" where
  "idle_step acc c =
     (if is_space c then Some (LIdle, acc)
      else if c = CHR ''{'' then Some (LIdle, TLBrace # acc)
      else if c = CHR ''}'' then Some (LIdle, TRBrace # acc)
      else if c = CHR ''['' then Some (LIdle, TLBrack # acc)
      else if c = CHR '']'' then Some (LIdle, TRBrack # acc)
      else if c = CHR '':'' then Some (LIdle, TColon # acc)
      else if c = CHR '','' then Some (LIdle, TComma # acc)
      else if c = CHR 0x22 then Some (LStr [], acc)
      else if is_bare_char c then Some (LWord [c], acc)
      else None)"

text \<open>
  Strings are 8-bit here, so a \<open>\u\<close> escape above \<open>00ff\<close> has no value in this model
  and is refused.
\<close>

fun lex_step :: "lmode \<Rightarrow> token list \<Rightarrow> char \<Rightarrow> (lmode \<times> token list) option" where
  "lex_step LIdle acc c = idle_step acc c"
| "lex_step (LStr s) acc c =
     (if c = CHR 0x22 then Some (LIdle, TString (rev s) # acc)
      else if c = CHR 0x5C then Some (LEsc s, acc)
      else if (of_char c :: nat) < 32 then None
      else Some (LStr (c # s), acc))"
| "lex_step (LEsc s) acc c =
     (if c = CHR ''u'' then Some (LUni s [], acc)
      else case unescape c of None \<Rightarrow> None | Some d \<Rightarrow> Some (LStr (d # s), acc))"
| "lex_step (LUni s ds) acc c =
     (case hex_value c of
        None \<Rightarrow> None
      | Some d \<Rightarrow>
          if length ds < 3 then Some (LUni s (ds @ [d]), acc)
          else (let n = foldl (\<lambda>a x. 16 * a + x) 0 (ds @ [d])
                in if n < 256 then Some (LStr (char_of n # s), acc) else None))"
| "lex_step (LWord w) acc c =
     (if is_bare_char c then Some (LWord (c # w), acc)
      else case word_token (rev w) of None \<Rightarrow> None | Some t \<Rightarrow> idle_step (t # acc) c)"

definition lex_end :: "lmode \<Rightarrow> token list \<Rightarrow> token list option" where
  "lex_end m acc =
     (case m of
        LIdle \<Rightarrow> Some (rev acc)
      | LWord w \<Rightarrow> (case word_token (rev w) of None \<Rightarrow> None | Some t \<Rightarrow> Some (rev (t # acc)))
      | _ \<Rightarrow> None)"

fun lex_from :: "lmode \<Rightarrow> token list \<Rightarrow> string \<Rightarrow> token list option" where
  "lex_from m acc [] = lex_end m acc"
| "lex_from m acc (c # cs) =
     (case lex_step m acc c of None \<Rightarrow> None | Some (m', acc') \<Rightarrow> lex_from m' acc' cs)"

definition lex :: "string \<Rightarrow> token list option" where
  "lex s = lex_from LIdle [] s"

subsection \<open>\<open>JSON.parse\<close>: values\<close>

text \<open>
  A later member with a key already present replaces the earlier value, as a property
  assignment does.
\<close>

fun put_member :: "string \<Rightarrow> json \<Rightarrow> (string \<times> json) list \<Rightarrow> (string \<times> json) list" where
  "put_member k v [] = [(k, v)]"
| "put_member k v ((k', v') # ms) =
     (if k' = k then (k, v) # ms else (k', v') # put_member k v ms)"

text \<open>
  The parser keeps a stack of the containers that are still open: an array with its
  elements so far (last first), an object with its members so far, or an object whose
  next value belongs to a key already read.
\<close>

datatype frame =
    FArr "json list"
  | FObj "(string \<times> json) list"
  | FKey "(string \<times> json) list" string

datatype pmode =
    PValue
  | PFirst
  | PKeyFirst
  | PKey
  | PColon
  | PAfter
  | PDone json

text \<open>A finished value goes to the innermost open container, or is the result.\<close>

fun deliver :: "json \<Rightarrow> frame list \<Rightarrow> (pmode \<times> frame list) option" where
  "deliver v [] = Some (PDone v, [])"
| "deliver v (FArr es # st) = Some (PAfter, FArr (v # es) # st)"
| "deliver v (FKey ms k # st) = Some (PAfter, FObj (put_member k v ms) # st)"
| "deliver v (FObj ms # st) = None"

fun start_value :: "token \<Rightarrow> frame list \<Rightarrow> (pmode \<times> frame list) option" where
  "start_value (TString s) st = deliver (JStr s) st"
| "start_value (TNumber n) st = deliver (JNum n) st"
| "start_value TTrue st = deliver (JBool True) st"
| "start_value TFalse st = deliver (JBool False) st"
| "start_value TNull st = deliver JNull st"
| "start_value TLBrack st = Some (PFirst, FArr [] # st)"
| "start_value TLBrace st = Some (PKeyFirst, FObj [] # st)"
| "start_value _ st = None"

fun parse_step :: "pmode \<Rightarrow> frame list \<Rightarrow> token \<Rightarrow> (pmode \<times> frame list) option" where
  "parse_step PValue st t = start_value t st"
| "parse_step PFirst (FArr es # st) TRBrack = deliver (JArr (rev es)) st"
| "parse_step PFirst st t = start_value t st"
| "parse_step PKeyFirst (FObj ms # st) TRBrace = deliver (JObj ms) st"
| "parse_step PKeyFirst (FObj ms # st) (TString k) = Some (PColon, FKey ms k # st)"
| "parse_step PKey (FObj ms # st) (TString k) = Some (PColon, FKey ms k # st)"
| "parse_step PColon st TColon = Some (PValue, st)"
| "parse_step PAfter (FArr es # st) TComma = Some (PValue, FArr es # st)"
| "parse_step PAfter (FArr es # st) TRBrack = deliver (JArr (rev es)) st"
| "parse_step PAfter (FObj ms # st) TComma = Some (PKey, FObj ms # st)"
| "parse_step PAfter (FObj ms # st) TRBrace = deliver (JObj ms) st"
| "parse_step _ _ _ = None"

fun parse_from :: "pmode \<Rightarrow> frame list \<Rightarrow> token list \<Rightarrow> json option" where
  "parse_from m st [] = (case m of PDone v \<Rightarrow> Some v | _ \<Rightarrow> None)"
| "parse_from m st (t # ts) =
     (case parse_step m st t of None \<Rightarrow> None | Some (m', st') \<Rightarrow> parse_from m' st' ts)"

definition JSON_parse :: "string \<Rightarrow> json option" where
  "JSON_parse s = (case lex s of None \<Rightarrow> None | Some ts \<Rightarrow> parse_from PValue [] ts)"

section \<open>The shared type\<close>

text \<open>
  An interface lists its fields with their types. \<open>QueryPayload\<close> needs primitive field
  types only.
\<close>

datatype ts_prim = TsString | TsNumber | TsBoolean

type_synonym ts_interface = "(string \<times> ts_prim) list"

fun has_prim :: "json \<Rightarrow> ts_prim \<Rightarrow> bool" where
  "has_prim (JStr s) TsString = True"
| "has_prim (JNum n) TsNumber = True"
| "has_prim (JBool b) TsBoolean = True"
| "has_prim _ _ = False"

definition field_ok :: "(string \<times> json) list \<Rightarrow> string \<times> ts_prim \<Rightarrow> bool" where
  "field_ok ms f = (case map_of ms (fst f) of None \<Rightarrow> False | Some v \<Rightarrow> has_prim v (snd f))"

text \<open>A value has the shape of an interface when it is an object with every field of
  the interface present at the field's type.\<close>

fun conforms :: "json \<Rightarrow> ts_interface \<Rightarrow> bool" where
  "conforms (JObj ms) fs = list_all (field_ok ms) fs"
| "conforms _ fs = False"

text \<open>
  Modelled from the spec: the package \<open>@my-namespace/simple-shared-data\<close> that declares
  \<open>QueryPayload\<close> is not part of the sources. The spec gives the type as a record with a
  single field \<open>payload\<close> of text type; the listing of \<open>server.ts\<close> in the README
  declares the same interface, \<open>{ payload: string }\<close>.
\<close>

definition QueryPayload :: ts_interface where
  "QueryPayload = [(''payload'', TsString)]"

section \<open>The server: \<open>server.ts\<close>\<close>

subsection \<open>Requests and responses\<close>

datatype http_method = GET | HEAD | POST | PUT | DELETE | PATCH | OPTIONS

fun method_name :: "http_method \<Rightarrow> string" where
  "method_name GET = ''GET''"
| "method_name HEAD = ''HEAD''"
| "method_name POST = ''POST''"
| "method_name PUT = ''PUT''"
| "method_name DELETE = ''DELETE''"
| "method_name PATCH = ''PATCH''"
| "method_name OPTIONS = ''OPTIONS''"

text \<open>\<open>req_path\<close> is the path of the request URL, without the query string.\<close>

record request =
  req_method :: http_method
  req_path :: string
  req_query :: string
  req_headers :: "(string \<times> string) list"
  req_body :: string

text \<open>
  The response object as the handlers see it: the status code, the headers set so far,
  and the body once it has been sent. Headers that the framework and the HTTP layer add
  on their own account (\<open>X-Powered-By\<close>, \<open>ETag\<close>, \<open>Content-Length\<close>, \<open>Date\<close>) and
  conditional requests are not part of the model.
\<close>

record response =
  res_status :: nat
  res_headers :: "(string \<times> string) list"
  res_body :: "string option"

definition fresh_response :: response where
  "fresh_response = \<lparr>res_status = 200, res_headers = [], res_body = None\<rparr>"

text \<open>Header names are compared without regard to case.\<close>

fun put_header :: "string \<Rightarrow> string \<Rightarrow> (string \<times> string) list \<Rightarrow> (string \<times> string) list" where
  "put_header name v [] = [(name, v)]"
| "put_header name v ((k, w) # hs) =
     (if toLowerCase k = toLowerCase name then (name, v) # hs
      else (k, w) # put_header name v hs)"

fun find_header :: "string \<Rightarrow> (string \<times> string) list \<Rightarrow> string option" where
  "find_header name [] = None"
| "find_header name ((k, w) # hs) =
     (if toLowerCase k = toLowerCase name then Some w else find_header name hs)"

definition setHeader :: "string \<Rightarrow> string \<Rightarrow> response \<Rightarrow> response" where
  "setHeader name v res = res\<lparr>res_headers := put_header name v (res_headers res)\<rparr>"

definition getHeader :: "response \<Rightarrow> string \<Rightarrow> string option" where
  "getHeader res name = find_header name (res_headers res)"

text \<open>
  \<open>res.send(body)\<close> ends the response with the body; \<open>res.json(value)\<close> sends the
  JSON text of the value, with a JSON content type unless one is set already.
\<close>

definition res_send :: "string \<Rightarrow> response \<Rightarrow> response" where
  "res_send b res = res\<lparr>res_body := Some b\<rparr>"

definition res_json :: "json \<Rightarrow> response \<Rightarrow> response" where
  "res_json v res =
     res_send (JSON_stringify v)
       (case getHeader res ''Content-Type'' of
          None \<Rightarrow> setHeader ''Content-Type'' ''application/json; charset=utf-8'' res
        | Some t \<Rightarrow> res)"

subsection \<open>Handlers\<close>

text \<open>
  A handler gets the request and the response object. It either calls \<open>next()\<close>, ends
  the response, or throws.
\<close>

datatype outcome = Next response | Sent response | Threw string

type_synonym handler = "request \<Rightarrow> response \<Rightarrow> outcome"

datatype layer = Use handler | Route http_method string handler

text \<open>
  \<^verbatim>\<open>
  app.use((_req, res, next) => {
    res.setHeader("Access-Control-Allow-Origin", "*");
    next();
  });
  \<close>
\<close>

definition cors_middleware :: handler where
  "cors_middleware req res = Next (setHeader ''Access-Control-Allow-Origin'' ''*'' res)"

text \<open>
  \<^verbatim>\<open>
  app.get("/", (_req, res) => {
    const responseData: QueryPayload = {
      payload: _.snakeCase("Server data returned successfully"),
    };
    res.json(responseData);
  });
  \<close>
\<close>

definition responseData :: json where
  "responseData = JObj [(''payload'', JStr (snakeCase ''Server data returned successfully''))]"

definition root_handler :: handler where
  "root_handler req res = Sent (res_json responseData res)"

definition port :: nat where
  "port = 3001"

definition app :: "layer list" where
  "app = [Use cors_middleware, Route GET ''/'' root_handler]"

text \<open>The routes of an application: the method and path of each route layer.\<close>

fun routes :: "layer list \<Rightarrow> (http_method \<times> string) list" where
  "routes [] = []"
| "routes (Use h # ls) = routes ls"
| "routes (Route m p h # ls) = (m, p) # routes ls"

subsection \<open>The framework's dispatch\<close>

text \<open>
  The layers run in the order of their registration. A middleware layer takes every
  request. A route takes the requests for its path and method; a \<open>GET\<close> route also takes
  \<open>HEAD\<close>. For an \<open>OPTIONS\<close> request the dispatcher gathers the methods of the routes on
  the path. When no layer ends the response, an \<open>OPTIONS\<close> request with gathered methods
  is answered with them and any other request with 404; a handler that throws gives 500.
  In each case the headers set so far stay on the response.
\<close>

definition handles_method :: "http_method \<Rightarrow> http_method \<Rightarrow> bool" where
  "handles_method route_method m = (m = route_method \<or> (m = HEAD \<and> route_method = GET))"

definition route_options :: "http_method \<Rightarrow> http_method list" where
  "route_options route_method = (if route_method = GET then [GET, HEAD] else [route_method])"

definition not_found :: "request \<Rightarrow> response \<Rightarrow> response" where
  "not_found req res =
     res_send (''Cannot '' @ method_name (req_method req) @ '' '' @ req_path req)
       (setHeader ''Content-Type'' ''text/html; charset=utf-8'' (res\<lparr>res_status := 404\<rparr>))"

definition server_error :: "string \<Rightarrow> response \<Rightarrow> response" where
  "server_error msg res =
     res_send msg (setHeader ''Content-Type'' ''text/html; charset=utf-8'' (res\<lparr>res_status := 500\<rparr>))"

definition send_options :: "http_method list \<Rightarrow> response \<Rightarrow> response" where
  "send_options ms res =
     (let allow = join '','' (map method_name ms)
      in res_send allow (setHeader ''Allow'' allow res))"

definition finish :: "http_method list \<Rightarrow> request \<Rightarrow> response \<Rightarrow> response" where
  "finish opts req res =
     (if req_method req = OPTIONS \<and> opts \<noteq> [] then send_options opts res
      else not_found req res)"

definition run_handler :: "handler \<Rightarrow> request \<Rightarrow> response \<Rightarrow> (response \<Rightarrow> response) \<Rightarrow> response" where
  "run_handler h req res continue =
     (case h req res of
        Next res' \<Rightarrow> continue res'
      | Sent res' \<Rightarrow> res'
      | Threw msg \<Rightarrow> server_error msg res)"

fun dispatch :: "layer list \<Rightarrow> http_method list \<Rightarrow> request \<Rightarrow> response \<Rightarrow> response" where
  "dispatch [] opts req res = finish opts req res"
| "dispatch (Use h # ls) opts req res = run_handler h req res (dispatch ls opts req)"
| "dispatch (Route m p h # ls) opts req res =
     (if req_path req = p then
        (if handles_method m (req_method req)
         then run_handler h req res (dispatch ls opts req)
         else dispatch ls
                (if req_method req = OPTIONS then opts @ filter (\<lambda>x. x \<notin> set opts) (route_options m)
                 else opts)
                req res)
      else dispatch ls opts req res)"

text \<open>
  A handler keeps the \<open>Access-Control-Allow-Origin\<close> header when the response it passes
  on or sends has the header as the response it was given had it.
\<close>

fun layer_handler :: "layer \<Rightarrow> handler" where
  "layer_handler (Use h) = h"
| "layer_handler (Route m p h) = h"

definition keeps_acao :: "handler \<Rightarrow> bool" where
  "keeps_acao h =
     (\<forall>req res res'. h req res = Next res' \<or> h req res = Sent res' \<longrightarrow>
        getHeader res' ''Access-Control-Allow-Origin'' = getHeader res ''Access-Control-Allow-Origin'')"

text \<open>Each request gets a response object of its own. The body of the answer to a
  \<open>HEAD\<close> request is not written.\<close>

definition serve :: "request \<Rightarrow> response" where
  "serve req =
     (let res = dispatch app [] req fresh_response
      in if req_method req = HEAD then res\<lparr>res_body := Some []\<rparr> else res)"


text \<open>
  \<^verbatim>\<open>
  app.listen(port, () => {
    console.log(`Example app listening at http://localhost:${port}`);
  });
  \<close>
\<close>

fun show_nat :: "nat \<Rightarrow> string" where
  "show_nat n =
     (if n < 10 then [char_of (48 + n)]
      else show_nat (n div 10) @ [char_of (48 + n mod 10)])"

declare show_nat.simps [simp del]

definition listening_message :: string where
  "listening_message = ''Example app listening at http://localhost:'' @ show_nat port"

section \<open>The client: \<open>App.tsx\<close>\<close>

subsection \<open>URLs\<close>

record url =
  url_scheme :: string
  url_host :: string
  url_port :: nat
  url_path :: string
  url_query :: string

definition parse_nat :: "string \<Rightarrow> nat option" where
  "parse_nat s =
     (if s \<noteq> [] \<and> list_all is_digit s
      then Some (foldl (\<lambda>a c. 10 * a + (of_char c - 48)) 0 s)
      else None)"

definition default_port :: "string \<Rightarrow> nat" where
  "default_port scheme = (if scheme = ''https'' then 443 else 80)"

text \<open>
  \<open>scheme://host[:port][/path][?query]\<close>. A missing port is the default port of the scheme,
  a missing path is \<open>/\<close>.
\<close>

definition parse_url :: "string \<Rightarrow> url option" where
  "parse_url s =
     (let scheme = takeWhile (\<lambda>c. c \<noteq> CHR '':'') s;
          rest = dropWhile (\<lambda>c. c \<noteq> CHR '':'') s
      in if scheme \<noteq> [] \<and> take 3 rest = ''://'' then
           (let after = drop 3 rest;
                authority = takeWhile (\<lambda>c. c \<noteq> CHR ''/'' \<and> c \<noteq> CHR ''?'') after;
                tail = dropWhile (\<lambda>c. c \<noteq> CHR ''/'' \<and> c \<noteq> CHR ''?'') after;
                host = takeWhile (\<lambda>c. c \<noteq> CHR '':'') authority;
                port_part = dropWhile (\<lambda>c. c \<noteq> CHR '':'') authority;
                path = takeWhile (\<lambda>c. c \<noteq> CHR ''?'') tail;
                query = drop 1 (dropWhile (\<lambda>c. c \<noteq> CHR ''?'') tail);
                port_opt = (if port_part = [] then Some (default_port scheme)
                            else parse_nat (drop 1 port_part))
            in case port_opt of
                 None \<Rightarrow> None
               | Some p \<Rightarrow>
                   if host = [] then None
                   else Some \<lparr>url_scheme = scheme, url_host = host, url_port = p,
                              url_path = (if path = [] then ''/'' else path),
                              url_query = query\<rparr>)
         else None)"

subsection \<open>Promises, the network and the console\<close>

datatype js_error = NetworkError | SyntaxError | TypeError

text \<open>
  What the page does to the outside: the \<open>fetch\<close> calls it makes, each with its URL and
  its options, and the values it logs. A logged value may be \<open>undefined\<close> (\<open>None\<close>).
\<close>

record browser =
  fetches :: "(string \<times> (string \<times> string) list) list"
  console :: "json option list"

definition no_effects :: browser where
  "no_effects = \<lparr>fetches = [], console = []\<rparr>"

text \<open>
  A promise chain runs against the browser state and settles as rejected (\<open>Inl\<close>) or
  fulfilled (\<open>Inr\<close>). \<open>then\<close> runs its callback on a fulfilled value only and passes a
  rejection on; the chain has no \<open>catch\<close>, so a rejection that reaches its end is
  unhandled.
\<close>

type_synonym 'a js = "browser \<Rightarrow> (js_error + 'a) \<times> browser"

definition then_js :: "'a js \<Rightarrow> ('a \<Rightarrow> 'b js) \<Rightarrow> 'b js" where
  "then_js p f b =
     (case p b of
        (Inl e, b') \<Rightarrow> (Inl e, b')
      | (Inr x, b') \<Rightarrow> f x b')"

text \<open>The network answers a request with a response, or fails.\<close>

type_synonym network = "string \<Rightarrow> (string \<times> string) list \<Rightarrow> js_error + response"

definition fetch :: "network \<Rightarrow> string \<Rightarrow> (string \<times> string) list \<Rightarrow> response js" where
  "fetch net u init b = (net u init, b\<lparr>fetches := fetches b @ [(u, init)]\<rparr>)"

text \<open>\<open>response.json()\<close> rejects with a syntax error when the body is not JSON.\<close>

definition response_text :: "response \<Rightarrow> string" where
  "response_text r = (case res_body r of None \<Rightarrow> [] | Some t \<Rightarrow> t)"

definition response_json :: "response \<Rightarrow> json js" where
  "response_json r b =
     (case JSON_parse (response_text r) of
        None \<Rightarrow> (Inl SyntaxError, b)
      | Some v \<Rightarrow> (Inr v, b))"

text \<open>
  \<open>data.payload\<close>: reading a property of \<open>null\<close> throws a type error; an object gives
  the member, or \<open>undefined\<close> when it has none of that name; a string, number, boolean or
  array has no property \<open>payload\<close>.
\<close>

fun get_payload :: "json \<Rightarrow> js_error + json option" where
  "get_payload JNull = Inl TypeError"
| "get_payload (JObj ms) = Inr (map_of ms ''payload'')"
| "get_payload _ = Inr None"

text \<open>Whether a value is an object with a member named \<open>payload\<close>.\<close>

fun has_payload :: "json \<Rightarrow> bool" where
  "has_payload (JObj ms) = (''payload'' \<in> set (map fst ms))"
| "has_payload _ = False"

definition console_log :: "json option \<Rightarrow> unit js" where
  "console_log v b = (Inr (), b\<lparr>console := console b @ [v]\<rparr>)"

subsection \<open>The click handler\<close>

text \<open>
  \<^verbatim>\<open>
  onClick={() => {
    fetch("http://localhost:3001/", {})
      .then((response) => response.json())
      .then((data: QueryPayload) => console.log(data.payload));
  }}
  \<close>
  The annotation \<open>data: QueryPayload\<close> is erased by the compiler; nothing checks the
  value when the code runs.
\<close>

definition fetch_url :: string where
  "fetch_url = ''http://localhost:3001/''"

definition log_payload :: "json \<Rightarrow> unit js" where
  "log_payload data b =
     (case get_payload data of
        Inl e \<Rightarrow> (Inl e, b)
      | Inr v \<Rightarrow> console_log v b)"

definition onClick :: "network \<Rightarrow> (js_error + unit) \<times> browser" where
  "onClick net =
     then_js (then_js (fetch net fetch_url []) response_json) log_payload no_effects"

text \<open>The browser state after the one \<open>fetch\<close> call of the handler.\<close>

definition after_fetch :: browser where
  "after_fetch = \<lparr>fetches = [(fetch_url, [])], console = []\<rparr>"

subsection \<open>Networks\<close>

text \<open>A network on which every request is answered with the same response, and one on
  which every request fails.\<close>

definition answering :: "response \<Rightarrow> network" where
  "answering r u init = Inr r"

definition unreachable :: network where
  "unreachable u init = Inl NetworkError"

definition ok_response :: "string \<Rightarrow> response" where
  "ok_response b = \<lparr>res_status = 200, res_headers = [], res_body = Some b\<rparr>"

text \<open>
  The network of the tutorial: the server of \<open>server.ts\<close> listens on \<open>port\<close> of
  \<open>localhost\<close>, and nothing else is reachable. A \<open>fetch\<close> without a method is a
  \<open>GET\<close>. The page comes from another origin, so the browser hands over a response
  only if its \<open>Access-Control-Allow-Origin\<close> header admits the page; the model knows
  no origins, so the header has to be \<open>*\<close>.
\<close>

definition get_request :: "url \<Rightarrow> request" where
  "get_request u =
     \<lparr>req_method = GET, req_path = url_path u, req_query = url_query u,
      req_headers = [], req_body = []\<rparr>"

definition local_network :: network where
  "local_network u init =
     (case parse_url u of
        None \<Rightarrow> Inl TypeError
      | Some l \<Rightarrow>
          if url_scheme l = ''http'' \<and> url_host l = ''localhost'' \<and> url_port l = port
             \<and> map_of init ''method'' = None
          then (let r = serve (get_request l)
                in if getHeader r ''Access-Control-Allow-Origin'' = Some ''*'' then Inr r
                   else Inl NetworkError)
          else Inl NetworkError)"

section \<open>Modules and their imports\<close>

text \<open>
  A module imports names from module specifiers and exports type declarations. A name a
  module imports stands for the declaration that the named module exports under it.
\<close>

record ts_module =
  mod_imports :: "(string \<times> string) list"
  mod_exports :: "(string \<times> ts_interface) list"

text \<open>
  Modelled from the spec: the shared package \<open>@my-namespace/simple-shared-data\<close> is not
  part of the sources; the spec says that it publishes \<open>QueryPayload\<close>.
\<close>

definition simple_shared_data :: ts_module where
  "simple_shared_data = \<lparr>mod_imports = [], mod_exports = [(''QueryPayload'', QueryPayload)]\<rparr>"

text \<open>\<open>server.ts\<close> has three imports and no export.\<close>

definition server_module :: ts_module where
  "server_module =
     \<lparr>mod_imports = [(''express'', ''express''), (''_'', ''lodash''),
                     (''QueryPayload'', ''@my-namespace/simple-shared-data'')],
      mod_exports = []\<rparr>"

text \<open>\<open>App.tsx\<close> exports the component \<open>App\<close>, a value, and no type.\<close>

definition client_module :: ts_module where
  "client_module =
     \<lparr>mod_imports = [(''React'', ''react''), (''logo'', ''./logo.svg''), (''_'', ''lodash''),
                     (''QueryPayload'', ''simple-express-server/server''),
                     (''DarkMode'', ''./react-dark-mode/src/DarkMode'')],
      mod_exports = []\<rparr>"

text \<open>The modules of the workspace by specifier.\<close>

definition workspace :: "(string \<times> ts_module) list" where
  "workspace =
     [(''@my-namespace/simple-shared-data'', simple_shared_data),
      (''simple-express-server/server'', server_module)]"

definition resolve_type :: "ts_module \<Rightarrow> string \<Rightarrow> ts_interface option" where
  "resolve_type m name =
     (case map_of (mod_imports m) name of
        None \<Rightarrow> map_of (mod_exports m) name
      | Some spec \<Rightarrow>
          (case map_of workspace spec of
             None \<Rightarrow> None
           | Some m' \<Rightarrow> map_of (mod_exports m') name))"

section \<open>Evaluation lemmas\<close>

lemma snakeCase_phrase:
  "snakeCase ''Server data returned successfully'' = ''server_data_returned_successfully''"
  by code_simp

lemma responseData_value:
  "responseData = JObj [(''payload'', JStr ''server_data_returned_successfully'')]"
  by (simp add: responseData_def snakeCase_phrase)

lemma stringify_responseData:
  \<open>JSON_stringify responseData = ''{"payload":"server_data_returned_successfully"}''\<close>
  unfolding responseData_value by code_simp

lemma parse_responseData:
  "JSON_parse (JSON_stringify responseData) = Some responseData"
  unfolding stringify_responseData unfolding responseData_value by code_simp

lemma parse_examples:
  \<open>JSON_parse ''null'' = Some JNull\<close>
  \<open>JSON_parse ''{'' = None\<close>
  \<open>JSON_parse ''{"data":1}'' = Some (JObj [(''data'', JNum ''1'')])\<close>
  \<open>JSON_parse ''{"payload":"x"}'' = Some (JObj [(''payload'', JStr ''x'')])\<close>
  by code_simp+

lemma lower_acao: "toLowerCase ''Access-Control-Allow-Origin'' = ''access-control-allow-origin''"
  by code_simp

lemma lower_ct: "toLowerCase ''Content-Type'' = ''content-type''"
  by code_simp

lemma lower_allow: "toLowerCase ''Allow'' = ''allow''"
  by code_simp

lemma parse_fetch_url:
  "parse_url fetch_url =
     Some \<lparr>url_scheme = ''http'', url_host = ''localhost'', url_port = 3001,
           url_path = ''/'', url_query = []\<rparr>"
  by code_simp

lemma show_3001: "show_nat 3001 = ''3001''"
  by code_simp

lemma show_port: "show_nat port = ''3001''"
  by (simp only: port_def show_3001)

section \<open>Headers\<close>

lemma find_put_same: "find_header name (put_header name v hs) = Some v"
  by (induction hs) auto

lemma find_put_other:
  "toLowerCase k \<noteq> toLowerCase name \<Longrightarrow> find_header k (put_header name v hs) = find_header k hs"
  by (induction hs) auto

lemma getHeader_setHeader_same: "getHeader (setHeader name v res) name = Some v"
  by (simp add: getHeader_def setHeader_def find_put_same)

lemma getHeader_setHeader_other:
  "toLowerCase k \<noteq> toLowerCase name \<Longrightarrow> getHeader (setHeader name v res) k = getHeader res k"
  by (simp add: getHeader_def setHeader_def find_put_other)

lemma getHeader_res_send: "getHeader (res_send b res) k = getHeader res k"
  by (simp add: getHeader_def res_send_def)

lemma getHeader_status: "getHeader (res\<lparr>res_status := n\<rparr>) k = getHeader res k"
  by (simp add: getHeader_def)

lemma getHeader_body: "getHeader (res\<lparr>res_body := b\<rparr>) k = getHeader res k"
  by (simp add: getHeader_def)


lemma res_json_body: "res_body (res_json v res) = Some (JSON_stringify v)"
  by (simp add: res_json_def res_send_def)

lemma response_text_res_json: "response_text (res_json v res) = JSON_stringify v"
  by (simp add: response_text_def res_json_body)

lemma response_text_ok: "response_text (ok_response t) = t"
  by (simp add: response_text_def ok_response_def)

section \<open>The header for any origin\<close>

text \<open>Whatever the framework does to end a response leaves the header as it is.\<close>

lemma acao_res_json:
  "getHeader (res_json v res) ''Access-Control-Allow-Origin''
     = getHeader res ''Access-Control-Allow-Origin''"
  by (simp add: res_json_def getHeader_res_send getHeader_setHeader_other lower_acao lower_ct
      split: option.splits)

lemma acao_not_found:
  "getHeader (not_found req res) ''Access-Control-Allow-Origin''
     = getHeader res ''Access-Control-Allow-Origin''"
  by (simp add: not_found_def getHeader_res_send getHeader_setHeader_other getHeader_status
      lower_acao lower_ct)

lemma acao_server_error:
  "getHeader (server_error msg res) ''Access-Control-Allow-Origin''
     = getHeader res ''Access-Control-Allow-Origin''"
  by (simp add: server_error_def getHeader_res_send getHeader_setHeader_other getHeader_status
      lower_acao lower_ct)

lemma acao_send_options:
  "getHeader (send_options ms res) ''Access-Control-Allow-Origin''
     = getHeader res ''Access-Control-Allow-Origin''"
  by (simp add: send_options_def Let_def getHeader_res_send getHeader_setHeader_other
      lower_acao lower_allow)

lemma acao_finish:
  "getHeader (finish opts req res) ''Access-Control-Allow-Origin''
     = getHeader res ''Access-Control-Allow-Origin''"
  by (simp add: finish_def acao_send_options acao_not_found)

lemma run_handler_keeps:
  assumes h: "keeps_acao h"
    and c: "\<And>res'. getHeader (continue res') ''Access-Control-Allow-Origin''
                  = getHeader res' ''Access-Control-Allow-Origin''"
  shows "getHeader (run_handler h req res continue) ''Access-Control-Allow-Origin''
           = getHeader res ''Access-Control-Allow-Origin''"
proof (cases "h req res")
  case (Next res')
  with h have "getHeader res' ''Access-Control-Allow-Origin''
                 = getHeader res ''Access-Control-Allow-Origin''"
    by (simp add: keeps_acao_def)
  with Next c show ?thesis by (simp add: run_handler_def)
next
  case (Sent res')
  with h have "getHeader res' ''Access-Control-Allow-Origin''
                 = getHeader res ''Access-Control-Allow-Origin''"
    by (simp add: keeps_acao_def)
  with Sent show ?thesis by (simp add: run_handler_def)
next
  case (Threw msg)
  then show ?thesis by (simp add: run_handler_def acao_server_error)
qed

text \<open>Layers whose handlers keep the header give a dispatch that keeps it.\<close>

lemma dispatch_keeps:
  "list_all (\<lambda>l. keeps_acao (layer_handler l)) ls \<Longrightarrow>
   getHeader (dispatch ls opts req res) ''Access-Control-Allow-Origin''
     = getHeader res ''Access-Control-Allow-Origin''"
proof (induction ls arbitrary: opts res)
  case Nil
  show ?case by (simp add: acao_finish)
next
  case (Cons l ls)
  then have h: "keeps_acao (layer_handler l)"
    and rest: "\<And>opts res. getHeader (dispatch ls opts req res) ''Access-Control-Allow-Origin''
                          = getHeader res ''Access-Control-Allow-Origin''"
    by simp_all
  show ?case
  proof (cases l)
    case (Use f)
    with h rest show ?thesis by (simp add: run_handler_keeps)
  next
    case (Route m p f)
    with h rest show ?thesis by (simp add: run_handler_keeps)
  qed
qed

lemma root_handler_keeps: "keeps_acao root_handler"
  by (simp add: keeps_acao_def root_handler_def acao_res_json)

lemma serve_acao: "getHeader (serve req) ''Access-Control-Allow-Origin'' = Some ''*''"
proof -
  let ?res = "setHeader ''Access-Control-Allow-Origin'' ''*'' fresh_response"
  have "dispatch app [] req fresh_response = dispatch [Route GET ''/'' root_handler] [] req ?res"
    by (simp add: app_def run_handler_def cors_middleware_def)
  moreover
  have "getHeader (dispatch [Route GET ''/'' root_handler] [] req ?res) ''Access-Control-Allow-Origin''
          = getHeader ?res ''Access-Control-Allow-Origin''"
    by (rule dispatch_keeps) (simp add: root_handler_keeps)
  ultimately
  have "getHeader (dispatch app [] req fresh_response) ''Access-Control-Allow-Origin'' = Some ''*''"
    by (simp add: getHeader_setHeader_same)
  then show ?thesis
    by (simp add: serve_def Let_def getHeader_body)
qed


section \<open>The root route\<close>

lemma serve_root_get:
  assumes "req_method req = GET" and "req_path req = ''/''"
  shows "serve req
           = res_json responseData (setHeader ''Access-Control-Allow-Origin'' ''*'' fresh_response)"
  using assms
  by (simp add: serve_def app_def run_handler_def cors_middleware_def root_handler_def
      handles_method_def)



lemma conforms_responseData: "conforms responseData QueryPayload"
  by (simp add: responseData_def QueryPayload_def field_ok_def)

lemma get_payload_responseData:
  "get_payload responseData = Inr (Some (JStr (snakeCase ''Server data returned successfully'')))"
  by (simp add: responseData_def)

text \<open>
  Claim C3. The value the server builds has the shape of \<open>QueryPayload\<close>: the field
  \<open>payload\<close> is present and is a string. So \<open>data.payload\<close> is defined on it, also after
  the value has gone through \<open>res.json\<close> and \<open>response.json()\<close>.
\<close>

theorem server_payload_has_client_shape:
  "conforms responseData QueryPayload
   \<and> get_payload responseData = Inr (Some (JStr (snakeCase ''Server data returned successfully'')))
   \<and> response_json (res_json responseData res) b = (Inr responseData, b)"
  by (simp add: conforms_responseData get_payload_responseData response_json_def
      response_text_res_json parse_responseData)









section \<open>The click handler\<close>

lemma onClick_cases:
  "onClick net =
     (case net fetch_url [] of
        Inl e \<Rightarrow> (Inl e, after_fetch)
      | Inr r \<Rightarrow>
          (case JSON_parse (response_text r) of
             None \<Rightarrow> (Inl SyntaxError, after_fetch)
           | Some data \<Rightarrow>
               (case get_payload data of
                  Inl e \<Rightarrow> (Inl e, after_fetch)
                | Inr v \<Rightarrow> (Inr (), after_fetch\<lparr>console := [v]\<rparr>))))"
  by (simp add: onClick_def then_js_def fetch_def response_json_def log_payload_def
      console_log_def no_effects_def after_fetch_def split: sum.splits option.splits)

text \<open>
  Claim C5. A click makes exactly one \<open>fetch\<close> call, to \<open>http://localhost:3001/\<close> with
  empty options (so without an abort signal for a timeout). When the network fails, when
  the body is not JSON and when reading the payload throws, the chain ends rejected with
  that error and nothing is logged. Otherwise exactly the \<open>payload\<close> of the parsed
  body is logged.
\<close>

theorem click_handler_behaviour:
  "fetches (snd (onClick net)) = [(''http://localhost:3001/'', [])]
   \<and> (\<forall>e. net fetch_url [] = Inl e \<longrightarrow>
          onClick net = (Inl e, \<lparr>fetches = [(fetch_url, [])], console = []\<rparr>))
   \<and> (\<forall>r. net fetch_url [] = Inr r \<longrightarrow> JSON_parse (response_text r) = None \<longrightarrow>
          onClick net = (Inl SyntaxError, \<lparr>fetches = [(fetch_url, [])], console = []\<rparr>))
   \<and> (\<forall>r data e. net fetch_url [] = Inr r \<longrightarrow> JSON_parse (response_text r) = Some data \<longrightarrow>
          get_payload data = Inl e \<longrightarrow>
          onClick net = (Inl e, \<lparr>fetches = [(fetch_url, [])], console = []\<rparr>))
   \<and> (\<forall>r data v. net fetch_url [] = Inr r \<longrightarrow> JSON_parse (response_text r) = Some data \<longrightarrow>
          get_payload data = Inr v \<longrightarrow>
          onClick net = (Inr (), \<lparr>fetches = [(fetch_url, [])], console = [v]\<rparr>))"
  by (simp add: onClick_cases after_fetch_def fetch_url_def split: sum.splits option.splits)

text \<open>One network for each case: no answer, a body that is not JSON, the body \<open>null\<close>,
  and an object with a payload.\<close>

theorem click_handler_behaviour_witness:
  \<open>onClick unreachable
     = (Inl NetworkError, \<lparr>fetches = [(fetch_url, [])], console = []\<rparr>)
   \<and> onClick (answering (ok_response ''{''))
       = (Inl SyntaxError, \<lparr>fetches = [(fetch_url, [])], console = []\<rparr>)
   \<and> onClick (answering (ok_response ''null''))
       = (Inl TypeError, \<lparr>fetches = [(fetch_url, [])], console = []\<rparr>)
   \<and> onClick (answering (ok_response ''{"payload":"x"}''))
       = (Inr (), \<lparr>fetches = [(fetch_url, [])], console = [Some (JStr ''x'')]\<rparr>)\<close>
  using click_handler_behaviour [of unreachable]
    click_handler_behaviour [of "answering (ok_response ''{'')"]
    click_handler_behaviour [of "answering (ok_response ''null'')"]
    click_handler_behaviour [of \<open>answering (ok_response ''{"payload":"x"}'')\<close>]
  by (simp add: unreachable_def answering_def response_text_ok parse_examples)

lemma get_payload_missing:
  "data \<noteq> JNull \<Longrightarrow> \<not> has_payload data \<Longrightarrow> get_payload data = Inr None"
  by (cases data) (simp_all add: map_of_eq_None_iff)

text \<open>
  Claim C10, as stated, fails: the body \<open>null\<close> is JSON and has no field \<open>payload\<close>, but
  reading \<open>payload\<close> of \<open>null\<close> throws, so the chain ends rejected and nothing is logged.
\<close>

theorem null_body_raises:
  \<open>JSON_parse (response_text (ok_response ''null'')) = Some JNull
   \<and> \<not> has_payload JNull
   \<and> onClick (answering (ok_response ''null''))
       = (Inl TypeError, \<lparr>fetches = [(fetch_url, [])], console = []\<rparr>)\<close>
  by (simp add: onClick_cases answering_def response_text_ok parse_examples after_fetch_def)

text \<open>
  Claim C10, amended. Nothing checks the shape of the parsed body: when it is any value
  but \<open>null\<close> and has no field \<open>payload\<close>, the client logs \<open>undefined\<close> and raises no
  error.
\<close>

theorem missing_payload_logs_undefined:
  assumes "net fetch_url [] = Inr r"
    and "JSON_parse (response_text r) = Some data"
    and "data \<noteq> JNull"
    and "\<not> has_payload data"
  shows "onClick net = (Inr (), \<lparr>fetches = [(fetch_url, [])], console = [None]\<rparr>)"
  using assms by (simp add: onClick_cases get_payload_missing after_fetch_def)

text \<open>An object with another field.\<close>

theorem missing_payload_logs_undefined_witness:
  \<open>onClick (answering (ok_response ''{"data":1}''))
     = (Inr (), \<lparr>fetches = [(fetch_url, [])], console = [None]\<rparr>)\<close>
  using missing_payload_logs_undefined
    [of \<open>answering (ok_response ''{"data":1}'')\<close> \<open>ok_response ''{"data":1}''\<close>
        "JObj [(''data'', JNum ''1'')]"]
  by (simp add: answering_def response_text_ok parse_examples)

section \<open>Client and server together\<close>

lemma local_network_fetch:
  "local_network fetch_url []
     = Inr (res_json responseData (setHeader ''Access-Control-Allow-Origin'' ''*'' fresh_response))"
proof -
  let ?req = "get_request \<lparr>url_scheme = ''http'', url_host = ''localhost'', url_port = 3001,
                            url_path = ''/'', url_query = []\<rparr>"
  have "serve ?req
          = res_json responseData (setHeader ''Access-Control-Allow-Origin'' ''*'' fresh_response)"
    by (rule serve_root_get) (simp_all add: get_request_def)
  moreover have "getHeader (serve ?req) ''Access-Control-Allow-Origin'' = Some ''*''"
    by (rule serve_acao)
  ultimately show ?thesis
    by (simp add: local_network_def parse_fetch_url port_def Let_def)
qed

text \<open>
  Claim C9. The URL of the \<open>fetch\<close> call names the port the server listens on and the
  path of the server's one route: it is the URL of the listening message followed by
  \<open>/\<close>, and on the local network the click reaches the root route and logs its payload.
\<close>

theorem client_url_names_server_endpoint:
  "parse_url fetch_url =
     Some \<lparr>url_scheme = ''http'', url_host = ''localhost'', url_port = port,
           url_path = ''/'', url_query = []\<rparr>
   \<and> routes app = [(GET, ''/'')]
   \<and> fetch_url = ''http://localhost:'' @ show_nat port @ ''/''
   \<and> listening_message = ''Example app listening at http://localhost:3001''
   \<and> onClick local_network
       = (Inr (), \<lparr>fetches = [(fetch_url, [])],
                    console = [Some (JStr (snakeCase ''Server data returned successfully''))]\<rparr>)"
proof -
  have "onClick local_network
       = (Inr (), \<lparr>fetches = [(fetch_url, [])],
                    console = [Some (JStr (snakeCase ''Server data returned successfully''))]\<rparr>)"
    by (simp add: onClick_cases local_network_fetch response_text_res_json parse_responseData
        get_payload_responseData after_fetch_def)
  moreover have "fetch_url = ''http://localhost:'' @ show_nat port @ ''/''"
    by (simp add: show_port fetch_url_def)
  moreover have "listening_message = ''Example app listening at http://localhost:3001''"
    by (simp add: listening_message_def show_port)
  moreover have "routes app = [(GET, ''/'')]"
    by (simp add: app_def)
  ultimately show ?thesis
    by (simp add: parse_fetch_url port_def)
qed

section \<open>The imports of \<open>QueryPayload\<close>\<close>

text \<open>
  Claim C7 does not hold of the two modules. The server imports \<open>QueryPayload\<close> from the
  shared package, where it is declared. The client imports the name from the server's
  module, which exports nothing, so the client's import names no declaration.
\<close>

theorem client_import_unresolved:
  "resolve_type server_module ''QueryPayload'' = Some QueryPayload
   \<and> map_of (mod_imports client_module) ''QueryPayload'' = Some ''simple-express-server/server''
   \<and> mod_exports server_module = []
   \<and> resolve_type client_module ''QueryPayload'' = None"
  by (simp add: resolve_type_def server_module_def client_module_def workspace_def
      simple_shared_data_def)

end
